theory Spec2Isabelle
  imports Main
begin

section \<open>Python values\<close>

text \<open>
  The configuration and the dependency tree are nested Python dictionaries with string
  keys, as a YAML or JSON loader builds them. A dictionary is an association list in
  insertion order; the keys of a Python dictionary are pairwise distinct.
  A character stands for one code point of a Python string.
\<close>

datatype json =
    JNull
  | JBool bool
  | JInt int
  | JStr string
  | JList "json list"
  | JDict "(string \<times> json) list"

type_synonym dict = "(string \<times> json) list"

datatype error =
    KeyError string
  | PyException string
  | TypeError string
  | AttributeError
  | StopIteration
  | RecursionError

text \<open>\<open>d.get(k)\<close>: \<open>None\<close> when the key is absent.\<close>

definition dict_get :: "dict \<Rightarrow> string \<Rightarrow> json" where
  "dict_get d k = (case map_of d k of None \<Rightarrow> JNull | Some v \<Rightarrow> v)"

text \<open>\<open>d.keys()\<close>, in insertion order.\<close>

definition dict_keys :: "dict \<Rightarrow> string list" where
  "dict_keys d = map fst d"

text \<open>\<open>d[k] = v\<close>: an existing key keeps its position, a new key goes last.\<close>

fun dict_set :: "dict \<Rightarrow> string \<Rightarrow> json \<Rightarrow> dict" where
  "dict_set [] k v = [(k, v)]"
| "dict_set ((k', v') # d) k v =
     (if k' = k then (k, v) # d else (k', v') # dict_set d k v)"

text \<open>\<open>d.update(e)\<close>.\<close>

definition dict_update :: "dict \<Rightarrow> dict \<Rightarrow> dict" where
  "dict_update d e = foldl (\<lambda>acc kv. dict_set acc (fst kv) (snd kv)) d e"

text \<open>\<open>v.get(k)\<close> on any value: only a dictionary has the method.\<close>

fun attr_get :: "json \<Rightarrow> string \<Rightarrow> error + json" where
  "attr_get (JDict d) k = Inr (dict_get d k)"
| "attr_get _ k = Inl AttributeError"

text \<open>\<open>v.keys()\<close> on any value.\<close>

fun attr_keys :: "json \<Rightarrow> error + string list" where
  "attr_keys (JDict d) = Inr (dict_keys d)"
| "attr_keys _ = Inl AttributeError"

subsection \<open>Decimal rendering of integers\<close>

definition digit_char :: "nat \<Rightarrow> char" where
  "digit_char d = char_of (48 + d)"

fun str_nat :: "nat \<Rightarrow> string" where
  "str_nat n = (if n < 10 then [digit_char n] else str_nat (n div 10) @ [digit_char (n mod 10)])"

declare str_nat.simps [simp del]

definition str_int :: "int \<Rightarrow> string" where
  "str_int i = (if i < 0 then CHR ''-'' # str_nat (nat (- i)) else str_nat (nat i))"

section \<open>diagrams.py: the tree resolver\<close>

definition not_found_msg :: "string \<Rightarrow> string" where
  "not_found_msg k = ''The source key '' @ k @ '' was not found in the sources config.''"

definition complex_sources :: "json list" where
  "complex_sources = [JStr ''mapping'', JStr ''union'', JStr ''multi'']"

text \<open>
  The loop of the union branch: each member's tree is merged into \<open>union_nest\<close>; the first
  failing member ends the loop.
\<close>

fun union_loop :: "(string \<Rightarrow> error + json) \<Rightarrow> string list \<Rightarrow> dict \<Rightarrow> error + dict" where
  "union_loop f [] union_nest = Inr union_nest"
| "union_loop f (union_source # sources) union_nest =
     (case f union_source of
        Inl e \<Rightarrow> Inl e
      | Inr (JDict t) \<Rightarrow> union_loop f sources (dict_update union_nest t)
      | Inr _ \<Rightarrow> Inl (TypeError ''update argument is not a mapping''))"

text \<open>
  \<open>get_source_dependency_tree(sources_config, source_key)\<close>. The first argument is the call
  depth the interpreter still allows: the function has no cycle detection, and Python
  raises \<open>RecursionError\<close> when the depth is used up. The source key is any value, since the
  recursive calls pass on whatever \<open>.get("left")\<close>, \<open>.get("right")\<close> and \<open>.get("original")\<close>
  return. A key that is not a string is in no configuration (\<open>.get\<close> gives \<open>None\<close>); a list
  or a dictionary cannot be hashed.
\<close>

fun get_source_dependency_tree :: "nat \<Rightarrow> dict \<Rightarrow> json \<Rightarrow> error + json" where
  "get_source_dependency_tree 0 sources_config source_key = Inl RecursionError"
| "get_source_dependency_tree (Suc depth) sources_config JNull =
     Inl (KeyError (not_found_msg ''None''))"
| "get_source_dependency_tree (Suc depth) sources_config (JBool b) =
     Inl (KeyError (not_found_msg (if b then ''True'' else ''False'')))"
| "get_source_dependency_tree (Suc depth) sources_config (JInt i) =
     Inl (KeyError (not_found_msg (str_int i)))"
| "get_source_dependency_tree (Suc depth) sources_config (JList xs) =
     Inl (TypeError (''unhashable type: '' @ [CHR 0x27] @ ''list'' @ [CHR 0x27]))"
| "get_source_dependency_tree (Suc depth) sources_config (JDict d) =
     Inl (TypeError (''unhashable type: '' @ [CHR 0x27] @ ''dict'' @ [CHR 0x27]))"
| "get_source_dependency_tree (Suc depth) sources_config (JStr source_key) =
     (let source_config = dict_get sources_config source_key in
      if source_config = JNull then Inl (KeyError (not_found_msg source_key))
      else
        case attr_get source_config ''type'' of
          Inl e \<Rightarrow> Inl e
        | Inr source_type \<Rightarrow>
          if source_type \<notin> set complex_sources then
            if source_type = JNull then
              (case attr_get source_config ''connection'' of
                 Inl e \<Rightarrow> Inl e
               | Inr connection \<Rightarrow>
                 (case attr_get connection ''config'' of
                    Inl e \<Rightarrow> Inl e
                  | Inr config \<Rightarrow>
                    if config = JNull then Inl (PyException ''Invalid source config.'')
                    else
                      (case attr_keys config of
                         Inl e \<Rightarrow> Inl e
                       | Inr ks \<Rightarrow>
                         if ''file_type'' \<in> set ks
                         then Inr (JDict [(source_key, JStr ''file'')])
                         else Inr (JDict [(source_key, JStr ''sql'')]))))
            else if source_type = JStr ''union_directory''
            then Inr (JDict [(source_key, JStr ''union_directory'')])
            else Inl (PyException
              ''Invalid source type. Must be either: sql, file, union_dir, mapping, union or multi.'')
          else if source_type = JStr ''mapping'' then
            (case attr_get source_config ''left'' of
               Inl e \<Rightarrow> Inl e
             | Inr left_source \<Rightarrow>
               (case attr_get source_config ''right'' of
                  Inl e \<Rightarrow> Inl e
                | Inr right_source \<Rightarrow>
                  (case get_source_dependency_tree depth sources_config left_source of
                     Inl e \<Rightarrow> Inl e
                   | Inr left_tree \<Rightarrow>
                     (case get_source_dependency_tree depth sources_config right_source of
                        Inl e \<Rightarrow> Inl e
                      | Inr right_tree \<Rightarrow>
                        Inr (JDict [(source_key, JDict [(''mapping'',
                          JDict [(''left'', left_tree), (''right'', right_tree)])])])))))
          else if source_type = JStr ''union'' then
            (case source_config of
               JDict sc \<Rightarrow>
                 (case map_of sc ''sources'' of
                    None \<Rightarrow> Inl (KeyError ''sources'')
                  | Some srcs \<Rightarrow>
                    (case attr_keys srcs of
                       Inl e \<Rightarrow> Inl e
                     | Inr sources \<Rightarrow>
                       (case union_loop
                               (\<lambda>union_source.
                                  get_source_dependency_tree depth sources_config (JStr union_source))
                               sources [] of
                          Inl e \<Rightarrow> Inl e
                        | Inr union_nest \<Rightarrow>
                          Inr (JDict [(source_key, JDict [(''union'', JDict union_nest)])]))))
             | _ \<Rightarrow> Inl AttributeError)
          else
            (case attr_get source_config ''original'' of
               Inl e \<Rightarrow> Inl e
             | Inr original \<Rightarrow>
               (case get_source_dependency_tree depth sources_config original of
                  Inl e \<Rightarrow> Inl e
                | Inr original_nest \<Rightarrow>
                  Inr (JDict [(source_key, JDict [(''multi'', original_nest)])]))))"

declare get_source_dependency_tree.simps [simp del]

section \<open>mermaid.py: nodes and flowcharts\<close>

record node =
  label :: string
  node_id :: string
  shape :: string
  style :: "string option"

text \<open>
  \<open>Node(label, shape, style)\<close>: the identity comes from the counter \<open>id_iter\<close> shared by
  all nodes; the constructor returns the node and the counter's next value.
\<close>

definition Node :: "nat \<Rightarrow> string \<Rightarrow> string \<Rightarrow> string option \<Rightarrow> node \<times> nat" where
  "Node id_iter lab shp sty =
     (\<lparr>label = lab, node_id = str_nat id_iter, shape = shp, style = sty\<rparr>, Suc id_iter)"

definition shape_map :: "(string \<times> string) list" where
  "shape_map =
     [(''rounded'', ''()''),
      (''stadium'', ''([])''),
      (''subroutine'', ''[[]]''),
      (''cylinder'', ''[()]''),
      (''circle'', ''(())''),
      (''asymmetric'', ''>]''),
      (''rhombus'', ''{}''),
      (''hexagon'', ''{{}}''),
      (''parallelogram'', ''[//]''),
      (''parallelogram_alt'', [CHR ''['', CHR 0x5C, CHR 0x5C, CHR '']'']),
      (''trapezoid'', [CHR ''['', CHR ''/'', CHR 0x5C, CHR '']'']),
      (''trapezoid_alt'', [CHR ''['', CHR 0x5C, CHR ''/'', CHR '']''])]"

text \<open>\<open>sep.join(xs)\<close>.\<close>

fun join :: "string \<Rightarrow> string list \<Rightarrow> string" where
  "join sep [] = []"
| "join sep [x] = x"
| "join sep (x # y # ys) = x @ sep @ join sep (y # ys)"

text \<open>Python's truth value of an optional string, integer and list.\<close>

definition truthy_str :: "string option \<Rightarrow> bool" where
  "truthy_str x = (case x of None \<Rightarrow> False | Some s \<Rightarrow> s \<noteq> [])"

definition truthy_int :: "int option \<Rightarrow> bool" where
  "truthy_int x = (case x of None \<Rightarrow> False | Some i \<Rightarrow> i \<noteq> 0)"

definition truthy_list :: "int list option \<Rightarrow> bool" where
  "truthy_list x = (case x of None \<Rightarrow> False | Some xs \<Rightarrow> xs \<noteq> [])"

definition set_style ::
  "node \<Rightarrow> string option \<Rightarrow> string option \<Rightarrow> int option \<Rightarrow> int list option \<Rightarrow> node" where
  "set_style self fill stroke stroke_width stroke_dasharray =
     (let s0 = ''style '' @ node_id self;
          s1 = (if truthy_str fill then s0 @ '' fill:'' @ the fill @ '','' else s0);
          s2 = (if truthy_str stroke then s1 @ '' stroke:'' @ the stroke @ '','' else s1);
          s3 = (if truthy_int stroke_width
                then s2 @ '' stroke-width:'' @ str_int (the stroke_width) @ ''px,'' else s2);
          s4 = (if truthy_list stroke_dasharray
                then s3 @ '' stroke-dasharray: '' @ join '' '' (map str_int (the stroke_dasharray)) @ '',''
                else s3)
      in self\<lparr>style := Some (butlast s4)\<rparr>)"

definition set_shape :: "node \<Rightarrow> string \<Rightarrow> error + node" where
  "set_shape self shape_name =
     (case map_of shape_map shape_name of
        None \<Rightarrow> Inl (KeyError (shape_name @ '' does not exist. Available options are: ''
                        @ join '', '' (map fst shape_map)))
      | Some shp \<Rightarrow> Inr (self\<lparr>shape := shp\<rparr>))"

definition set_shape_raw :: "node \<Rightarrow> string \<Rightarrow> error + node" where
  "set_shape_raw self shape_str =
     (if shape_str \<notin> set (map snd shape_map)
      then Inl (PyException (''Shape string '' @ shape_str @ '' is not valid. Valid options are: ''
                  @ join '', '' (map snd shape_map)))
      else Inr (self\<lparr>shape := shape_str\<rparr>))"

definition get_node_code :: "node \<Rightarrow> string" where
  "get_node_code self =
     (let shape_midpoint = length (shape self) div 2
      in ''\<newline>'' @ node_id self @ take shape_midpoint (shape self) @ label self
           @ drop shape_midpoint (shape self))"

text \<open>
  The two click tables are dictionaries keyed by the node object; a node object is
  identified by the identity its constructor drew from the counter.
\<close>

record flowchart =
  orientation :: string
  theme :: string
  nodes :: "node list"
  paths :: "string list"
  hrefs :: "(string \<times> string) list"
  clicks :: "(string \<times> string) list"

definition Flowchart :: "string \<Rightarrow> string \<Rightarrow> flowchart" where
  "Flowchart orient thm =
     \<lparr>orientation = orient, theme = thm, nodes = [], paths = [], hrefs = [], clicks = []\<rparr>"

definition add_node :: "flowchart \<Rightarrow> node \<Rightarrow> flowchart" where
  "add_node self n = self\<lparr>nodes := nodes self @ [n]\<rparr>"

definition add_nodes :: "flowchart \<Rightarrow> node list \<Rightarrow> flowchart" where
  "add_nodes self node_list = self\<lparr>nodes := nodes self @ node_list\<rparr>"

definition add_path :: "flowchart \<Rightarrow> node \<Rightarrow> node \<Rightarrow> string \<Rightarrow> string \<Rightarrow> flowchart" where
  "add_path self start_node end_node lab path_style =
     (let lab' = (if lab \<noteq> [] then ''|'' @ lab @ ''|'' else lab)
      in self\<lparr>paths := paths self @
           [''\<newline>'' @ node_id start_node @ '' '' @ path_style @ lab' @ node_id end_node]\<rparr>)"

fun table_set :: "(string \<times> string) list \<Rightarrow> string \<Rightarrow> string \<Rightarrow> (string \<times> string) list" where
  "table_set [] k v = [(k, v)]"
| "table_set ((k', v') # d) k v =
     (if k' = k then (k, v) # d else (k', v') # table_set d k v)"

definition add_href_click :: "flowchart \<Rightarrow> node \<Rightarrow> string \<Rightarrow> string \<Rightarrow> flowchart" where
  "add_href_click self n click_value tooltip =
     (let tooltip' = (if tooltip \<noteq> ''_blank'' then [CHR 0x22] @ tooltip @ [CHR 0x22] @ '' _blank''
                      else tooltip)
      in self\<lparr>hrefs := table_set (hrefs self) (node_id n)
           (''\<newline>click '' @ node_id n @ '' '' @ [CHR 0x22] @ click_value @ [CHR 0x22] @ '' ''
              @ tooltip')\<rparr>)"

definition add_fn_click :: "flowchart \<Rightarrow> node \<Rightarrow> string \<Rightarrow> string \<Rightarrow> flowchart" where
  "add_fn_click self n click_value tooltip =
     self\<lparr>clicks := table_set (clicks self) (node_id n)
       (''\<newline>click '' @ node_id n @ '' call '' @ click_value @ '' '' @ [CHR 0x22] @ tooltip
          @ [CHR 0x22] @ '' '')\<rparr>"

text \<open>\<open>s.strip(" ")\<close>: the space characters at both ends are removed.\<close>

definition strip_sp :: "string \<Rightarrow> string" where
  "strip_sp s =
     rev (dropWhile (\<lambda>c. c = CHR '' '') (rev (dropWhile (\<lambda>c. c = CHR '' '') s)))"

definition to_mermaid :: "flowchart \<Rightarrow> string" where
  "to_mermaid self =
     (let m0 = ''graph '' @ orientation self;
          m1 = foldl (\<lambda>mermaid n.
                  let mermaid' = mermaid @ strip_sp (get_node_code n)
                  in (case style n of
                        None \<Rightarrow> mermaid'
                      | Some sty \<Rightarrow> mermaid' @ ''\<newline>'' @ strip_sp sty))
                m0 (nodes self);
          m2 = foldl (\<lambda>mermaid path. mermaid @ strip_sp path) m1 (paths self);
          m3 = foldl (\<lambda>mermaid click. mermaid @ strip_sp click) m2 (map snd (clicks self));
          m4 = foldl (\<lambda>mermaid href. mermaid @ strip_sp href) m3 (map snd (hrefs self))
      in m4)"

section \<open>diagrams.py: the tree-to-graph builder\<close>

definition leaf_node_map :: "(string \<times> string) list" where
  "leaf_node_map = [(''file'', ''[]''), (''sql'', ''[()]''), (''union_directory'', ''[[]]'')]"

text \<open>
  \<open>build_source_dependency_chart(chart, dependency_tree, parent_source, map_right)\<close>. The
  first argument is the node counter; the result is the counter and the chart after the
  call. \<open>union_items\<close> is the loop over \<open>union_nest.items()\<close>.
\<close>

function build_source_dependency_chart ::
    "nat \<Rightarrow> flowchart \<Rightarrow> json \<Rightarrow> node option \<Rightarrow> bool \<Rightarrow> error + nat \<times> flowchart"
  and union_items :: "nat \<Rightarrow> flowchart \<Rightarrow> dict \<Rightarrow> node \<Rightarrow> error + nat \<times> flowchart"
where
  "build_source_dependency_chart id_iter chart dependency_tree parent_source map_right =
     (case attr_keys dependency_tree of
        Inl e \<Rightarrow> Inl e
      | Inr [] \<Rightarrow> Inl StopIteration
      | Inr (source # ks) \<Rightarrow>
        (case attr_get dependency_tree source of
           Inl e \<Rightarrow> Inl e
         | Inr (JStr nest) \<Rightarrow>
             (case map_of leaf_node_map nest of
                None \<Rightarrow> Inl (PyException
                  ''Leaf level sources should have one of the following types: file, sql & union_directory'')
              | Some shp \<Rightarrow>
                  (case Node id_iter source shp None of
                     (source_node, id_iter') \<Rightarrow>
                       (let chart1 = add_node chart source_node in
                        Inr (id_iter',
                          (case parent_source of
                             None \<Rightarrow> chart1
                           | Some parent \<Rightarrow>
                               if map_right then add_path chart1 source_node parent [] ''-.->''
                               else add_path chart1 source_node parent [] ''-->'')))))
         | Inr (JDict nest) \<Rightarrow>
             (case Node id_iter source ''{{}}'' None of
                (source_node, id_iter1) \<Rightarrow>
                  (let chart1 = add_node chart source_node;
                       chart2 = (case parent_source of
                                   None \<Rightarrow> chart1
                                 | Some parent \<Rightarrow> add_path chart1 source_node parent [] ''-->'')
                   in
                   if ''mapping'' \<in> set (dict_keys nest) then
                     (case dict_get nest ''mapping'' of
                        JDict mapping_tree \<Rightarrow>
                          (case build_source_dependency_chart id_iter1 chart2
                                  (dict_get mapping_tree ''left'') (Some source_node) False of
                             Inl e \<Rightarrow> Inl e
                           | Inr (id_iter2, chart3) \<Rightarrow>
                               build_source_dependency_chart id_iter2 chart3
                                 (dict_get mapping_tree ''right'') (Some source_node) True)
                      | _ \<Rightarrow> Inl AttributeError)
                   else if ''union'' \<in> set (dict_keys nest) then
                     (case dict_get nest ''union'' of
                        JDict union_nest \<Rightarrow> union_items id_iter1 chart2 union_nest source_node
                      | _ \<Rightarrow> Inl AttributeError)
                   else if ''multi'' \<in> set (dict_keys nest) then
                     build_source_dependency_chart id_iter1 chart2
                       (dict_get nest ''multi'') (Some source_node) False
                   else Inl (PyException
                     ''Dependency dict error. Complex sources should have type: mapping, union or multi.'')))
         | Inr _ \<Rightarrow> Inl (TypeError
             ''Invalid simple source type or complex source without information on its children?'')))"
| "union_items id_iter chart [] source_node = Inr (id_iter, chart)"
| "union_items id_iter chart ((source_key, source_nest) # items) source_node =
     (case build_source_dependency_chart id_iter chart (JDict [(source_key, source_nest)])
             (Some source_node) False of
        Inl e \<Rightarrow> Inl e
      | Inr (id_iter', chart') \<Rightarrow> union_items id_iter' chart' items source_node)"
  by pat_completeness auto
termination
proof -
  have get_size: "size (dict_get d k) < size (JDict d)" for d k
    by (induction d) (auto simp: dict_get_def split: if_splits)
  have attr_size: "attr_get t k = Inr v \<Longrightarrow> size v < size t" for t k v
    using get_size by (cases t) auto
  have F1: "attr_get t s = Inr (JDict n) \<Longrightarrow> dict_get n k = JDict m \<Longrightarrow> size (dict_get m k') < size t"
    for t s n k m k'
    using attr_size[of t s "JDict n"] get_size[of n k] get_size[of m k'] by simp
  have F2: "attr_get t s = Inr (JDict n) \<Longrightarrow> dict_get n k = JDict u
      \<Longrightarrow> Suc (Suc (Suc (2 * size_list (size_prod (\<lambda>x. 0) size) u))) < 2 * size t"
    for t s n k u
    using attr_size[of t s "JDict n"] get_size[of n k] by simp
  have F3: "attr_get t s = Inr (JDict n) \<Longrightarrow> size (dict_get n k) < size t"
    for t s n k
    using attr_size[of t s "JDict n"] get_size[of n k] by simp
  show ?thesis
    apply (relation "measure (\<lambda>x. case x of
          Inl (i, c, t, p, m) \<Rightarrow> 2 * size t
        | Inr (i, c, items, n) \<Rightarrow> 2 * size (JDict items) + 1)")
    subgoal by simp
    subgoal by (simp, erule (1) F1)
    subgoal by (simp, erule (1) F1)
    subgoal by (simp, erule (1) F2)
    subgoal by (simp, erule F3)
    subgoal by simp
    subgoal by simp
    done
qed

declare build_source_dependency_chart.simps [simp del]

section \<open>The scenario of the specification\<close>

definition scenario_config :: dict where
  "scenario_config =
     [(''m'', JDict [(''type'', JStr ''mapping''), (''left'', JStr ''l''), (''right'', JStr ''r'')]),
      (''l'', JDict [(''connection'', JDict [(''config'', JDict [(''file_type'', JStr ''csv'')])])]),
      (''r'', JDict [(''connection'', JDict [(''config'', JDict [])])])]"

definition scenario_tree :: json where
  "scenario_tree =
     JDict [(''m'', JDict [(''mapping'',
       JDict [(''left'', JDict [(''l'', JStr ''file'')]),
              (''right'', JDict [(''r'', JStr ''sql'')])])])]"

definition example_node :: node where
  "example_node = \<lparr>label = ''Start'', node_id = ''100'', shape = ''[]'', style = None\<rparr>"

subsection \<open>Composite definitions with a missing child field\<close>

definition none_key_error :: error where
  "none_key_error = KeyError (not_found_msg ''None'')"

definition half_mapping_config :: dict where
  "half_mapping_config =
     [(''m'', JDict [(''type'', JStr ''mapping''), (''left'', JStr ''b'')]),
      (''b'', JDict [(''type'', JStr ''bogus'')])]"

definition no_left_config :: dict where
  "no_left_config = [(''m'', JDict [(''type'', JStr ''mapping''), (''right'', JStr ''r'')])]"

definition no_right_config :: dict where
  "no_right_config =
     [(''m'', JDict [(''type'', JStr ''mapping''), (''left'', JStr ''l'')]),
      (''l'', JDict [(''type'', JStr ''union_directory'')])]"

definition no_original_config :: dict where
  "no_original_config = [(''m'', JDict [(''type'', JStr ''multi'')])]"

subsection \<open>The layout of the markup, as the specification words it\<close>

text \<open>
  The node-definition line: the identity, then the label between the two halves of the
  shape string, split at its midpoint.
\<close>

definition node_line :: "node \<Rightarrow> string" where
  "node_line n =
     node_id n @ take (length (shape n) div 2) (shape n) @ label n
       @ drop (length (shape n) div 2) (shape n)"

text \<open>
  The specification's reading of \<open>serialize\<close>: the header, each node line followed by its
  style line, the recorded edge lines, the callback-click directives and the href-click
  directives, every piece as it was recorded.
\<close>

definition to_mermaid_unstripped :: "flowchart \<Rightarrow> string" where
  "to_mermaid_unstripped self =
     ''graph '' @ orientation self
     @ concat (map (\<lambda>n. ''\<newline>'' @ node_line n
                 @ (case style n of None \<Rightarrow> [] | Some sty \<Rightarrow> ''\<newline>'' @ sty)) (nodes self))
     @ concat (paths self)
     @ concat (map snd (clicks self))
     @ concat (map snd (hrefs self))"

definition spaced_chart :: flowchart where
  "spaced_chart =
     add_node (Flowchart ''TD'' ''default'')
       \<lparr>label = ''a '', node_id = ''100'', shape = [], style = None\<rparr>"

section \<open>Dependency trees and resolution, as the specification words them\<close>

text \<open>
  The dependency tree of the specification's data model: a leaf with its kind tag, a
  mapping with its left and right sub-trees, a union with its member trees, a multi with
  the tree of its original. Each carries its source key.
\<close>

datatype dep =
    Leaf string string
  | Mapping string dep dep
  | Union string "dep list"
  | Multi string dep

fun root_key :: "dep \<Rightarrow> string" where
  "root_key (Leaf k kind) = k"
| "root_key (Mapping k l r) = k"
| "root_key (Union k ds) = k"
| "root_key (Multi k d) = k"

text \<open>
  The dictionary form of a tree: \<open>{key: kind}\<close>,
  \<open>{key: {"mapping": {"left": tree, "right": tree}}}\<close>, \<open>{key: {"union": merged}}\<close> with the
  members' single entries merged into one dictionary, and \<open>{key: {"multi": tree}}\<close>.
\<close>

fun root_entry :: "dep \<Rightarrow> string \<times> json" where
  "root_entry (Leaf k kind) = (k, JStr kind)"
| "root_entry (Mapping k l r) =
     (k, JDict [(''mapping'', JDict [(''left'', JDict [root_entry l]),
                                     (''right'', JDict [root_entry r])])])"
| "root_entry (Union k ds) = (k, JDict [(''union'', JDict (map root_entry ds))])"
| "root_entry (Multi k d) = (k, JDict [(''multi'', JDict [root_entry d])])"

definition tree_of :: "dep \<Rightarrow> json" where
  "tree_of d = JDict [root_entry d]"

text \<open>
  Well-formed trees: the leaf tags are the three leaf kinds, and the members of a union
  have distinct keys, so that the merged mapping is a dictionary.
\<close>

fun wf_dep :: "dep \<Rightarrow> bool" where
  "wf_dep (Leaf k kind) = (kind \<in> set [''file'', ''sql'', ''union_directory''])"
| "wf_dep (Mapping k l r) = (wf_dep l \<and> wf_dep r)"
| "wf_dep (Union k ds) = (list_all wf_dep ds \<and> distinct (map root_key ds))"
| "wf_dep (Multi k d) = wf_dep d"

fun dep_nodes :: "dep \<Rightarrow> nat" where
  "dep_nodes (Leaf k kind) = 1"
| "dep_nodes (Mapping k l r) = 1 + dep_nodes l + dep_nodes r"
| "dep_nodes (Union k ds) = 1 + sum_list (map dep_nodes ds)"
| "dep_nodes (Multi k d) = 1 + dep_nodes d"

text \<open>
  The edge styles as the specification words them: the edge from a child to its parent
  is dashed exactly when the child is a leaf and is the right sub-tree of a mapping.
  \<open>dep_edges c d\<close> lists the edges below the root of \<open>d\<close> as (from, dashed, to), the nodes
  numbered from \<open>c\<close> in the order of their creation (parent first, then the children in
  order).
\<close>

datatype branch = MappingLeft | MappingRight | UnionMember | MultiOriginal

fun is_leaf :: "dep \<Rightarrow> bool" where
  "is_leaf (Leaf k kind) = True"
| "is_leaf _ = False"

definition dashed :: "branch \<Rightarrow> dep \<Rightarrow> bool" where
  "dashed b child = (is_leaf child \<and> b = MappingRight)"

fun dep_edges :: "nat \<Rightarrow> dep \<Rightarrow> (nat \<times> bool \<times> nat) list"
  and member_edges :: "nat \<Rightarrow> nat \<Rightarrow> dep list \<Rightarrow> (nat \<times> bool \<times> nat) list" where
  "dep_edges c (Leaf k kind) = []"
| "dep_edges c (Mapping k l r) =
     (Suc c, dashed MappingLeft l, c) # dep_edges (Suc c) l
     @ (Suc c + dep_nodes l, dashed MappingRight r, c) # dep_edges (Suc c + dep_nodes l) r"
| "dep_edges c (Union k ds) = member_edges c (Suc c) ds"
| "dep_edges c (Multi k d) = (Suc c, dashed MultiOriginal d, c) # dep_edges (Suc c) d"
| "member_edges p c [] = []"
| "member_edges p c (d # ds) =
     (c, dashed UnionMember d, p) # dep_edges c d @ member_edges p (c + dep_nodes d) ds"

definition render_edge :: "nat \<times> bool \<times> nat \<Rightarrow> string" where
  "render_edge e =
     (case e of (a, dsh, b) \<Rightarrow>
        ''\<newline>'' @ str_nat a @ '' '' @ (if dsh then ''-.->'' else ''-->'') @ str_nat b)"

text \<open>The edge line from the root of a tree to the parent supplied by the caller.\<close>

definition parent_edge :: "nat \<Rightarrow> dep \<Rightarrow> node option \<Rightarrow> bool \<Rightarrow> string list" where
  "parent_edge c d parent map_right =
     (case parent of None \<Rightarrow> []
      | Some p \<Rightarrow> [''\<newline>'' @ str_nat c @ '' '' @ (if is_leaf d \<and> map_right then ''-.->'' else ''-->'') @ node_id p])"

text \<open>
  The number of source-key entries of a dependency tree in dictionary form: every entry
  of a tree level counts once, together with the entries of the trees nested under its
  composite tag.
\<close>

function tree_entries :: "json \<Rightarrow> nat" and nest_entries :: "json \<Rightarrow> nat" where
  "tree_entries t =
     (case t of
        JDict d \<Rightarrow> sum_list (map (\<lambda>kv. Suc (nest_entries (snd kv))) d)
      | _ \<Rightarrow> 0)"
| "nest_entries nest =
     (case nest of
        JDict n \<Rightarrow>
          if ''mapping'' \<in> set (dict_keys n) then
            (case dict_get n ''mapping'' of
               JDict m \<Rightarrow> tree_entries (dict_get m ''left'') + tree_entries (dict_get m ''right'')
             | _ \<Rightarrow> 0)
          else if ''union'' \<in> set (dict_keys n) then tree_entries (dict_get n ''union'')
          else if ''multi'' \<in> set (dict_keys n) then tree_entries (dict_get n ''multi'')
          else 0
      | _ \<Rightarrow> 0)"
  by pat_completeness auto
termination
proof -
  have get_size: "size (dict_get d k) < size (JDict d)" for d k
    by (induction d) (auto simp: dict_get_def split: if_splits)
  have G1: "dict_get n k = JDict m \<Longrightarrow> size (dict_get m k') < size (JDict n)" for n k m k'
    using get_size[of n k] get_size[of m k'] by simp
  have mem_size: "kv \<in> set d \<Longrightarrow> size (snd kv) < size (JDict d)" for kv :: "string \<times> json" and d
    by (induction d) (auto simp: less_Suc_eq)
  show ?thesis
    apply (relation "measure (\<lambda>x. case x of Inl t \<Rightarrow> 2 * size t + 1 | Inr nest \<Rightarrow> 2 * size nest)")
    subgoal by simp
    subgoal using mem_size by fastforce
    subgoal by (frule G1[where k'="''left''"]) simp
    subgoal by (frule G1[where k'="''right''"]) simp
    subgoal for nest n using get_size[of n "''union''"] by simp
    subgoal for nest n using get_size[of n "''multi''"] by simp
    done
qed

declare tree_entries.simps [simp del] nest_entries.simps [simp del]

text \<open>
  Resolution as the specification describes it. A definition is a leaf when its declared
  kind is \<open>union_directory\<close>, or when no kind is declared and the nested connection
  configuration is present (then the leaf is a file or an SQL source).
  \<open>resolves config key n\<close>: the key and every key referenced from it resolve down to
  leaves, visiting \<open>n\<close> keys, each counted once for every path that references it. A
  derivation is finite, so no key is reached from itself.
\<close>

definition leaf_definition :: "dict \<Rightarrow> bool" where
  "leaf_definition d =
     (dict_get d ''type'' = JStr ''union_directory''
      \<or> (dict_get d ''type'' = JNull
          \<and> (case dict_get d ''connection'' of
                JDict connection \<Rightarrow>
                  (case dict_get connection ''config'' of JDict config \<Rightarrow> True | _ \<Rightarrow> False)
              | _ \<Rightarrow> False)))"

inductive resolves :: "dict \<Rightarrow> string \<Rightarrow> nat \<Rightarrow> bool" for sources_config where
  leaf: "map_of sources_config k = Some (JDict d) \<Longrightarrow> leaf_definition d \<Longrightarrow>
      resolves sources_config k 1"
| mapping: "map_of sources_config k = Some (JDict d) \<Longrightarrow> dict_get d ''type'' = JStr ''mapping'' \<Longrightarrow>
      dict_get d ''left'' = JStr l \<Longrightarrow> dict_get d ''right'' = JStr r \<Longrightarrow>
      resolves sources_config l a \<Longrightarrow> resolves sources_config r b \<Longrightarrow>
      resolves sources_config k (1 + a + b)"
| union: "map_of sources_config k = Some (JDict d) \<Longrightarrow> dict_get d ''type'' = JStr ''union'' \<Longrightarrow>
      map_of d ''sources'' = Some (JDict srcs) \<Longrightarrow> distinct (dict_keys srcs) \<Longrightarrow>
      list_all2 (resolves sources_config) (dict_keys srcs) ns \<Longrightarrow>
      resolves sources_config k (1 + sum_list ns)"
| multi: "map_of sources_config k = Some (JDict d) \<Longrightarrow> dict_get d ''type'' = JStr ''multi'' \<Longrightarrow>
      dict_get d ''original'' = JStr original \<Longrightarrow> resolves sources_config original a \<Longrightarrow>
      resolves sources_config k (1 + a)"

definition chart_dep :: dep where
  "chart_dep =
     Mapping ''m''
       (Union ''u'' [Leaf ''a'' ''sql'', Multi ''x'' (Leaf ''o'' ''union_directory'')])
       (Leaf ''r'' ''file'')"

definition union_config :: dict where
  "union_config =
     [(''u'', JDict [(''type'', JStr ''union''),
                     (''sources'', JDict [(''a'', JDict []), (''v'', JDict [])])]),
      (''v'', JDict [(''type'', JStr ''union''),
                     (''sources'', JDict [(''a'', JDict []), (''b'', JDict [])])]),
      (''a'', JDict [(''type'', JStr ''union_directory'')]),
      (''b'', JDict [(''connection'', JDict [(''config'', JDict [])])])]"

definition union_tree :: json where
  "union_tree =
     JDict [(''u'', JDict [(''union'', JDict
       [(''a'', JStr ''union_directory''),
        (''v'', JDict [(''union'', JDict [(''a'', JStr ''union_directory''), (''b'', JStr ''sql'')])])])])]"


section \<open>Properties\<close>

lemma foldl_append_concat: "foldl (\<lambda>acc x. acc @ f x) a xs = a @ concat (map f xs)"
  by (induction xs arbitrary: a) simp_all

lemma foldl_nodes_concat:
  "foldl (\<lambda>mermaid n.
             case style n of None \<Rightarrow> mermaid @ g n | Some sty \<Rightarrow> (mermaid @ g n) @ h sty) a xs
   = a @ concat (map (\<lambda>n. g n @ (case style n of None \<Rightarrow> [] | Some sty \<Rightarrow> h sty)) xs)"
  by (induction xs arbitrary: a) (simp_all split: option.splits)

lemma build_members:
  assumes "\<And>d c chart parent map_right. d \<in> set ds \<Longrightarrow>
     \<exists>chart'. build_source_dependency_chart c chart (JDict [root_entry d]) parent map_right
         = Inr (c + dep_nodes d, chart')
       \<and> paths chart' = paths chart @ parent_edge c d parent map_right @ map render_edge (dep_edges c d)"
    and "node_id p = str_nat pc"
  shows "\<exists>chart'. union_items c chart (map root_entry ds) p
         = Inr (c + sum_list (map dep_nodes ds), chart')
       \<and> paths chart' = paths chart @ map render_edge (member_edges pc c ds)"
  using assms
proof (induction ds arbitrary: c chart)
  case Nil
  then show ?case by (simp add: build_source_dependency_chart.simps)
next
  case (Cons d ds)
  obtain k nest where kn: "root_entry d = (k, nest)" by (cases "root_entry d")
  from Cons.prems(1)[of d c chart "Some p" False]
  obtain chart1 where 1: "build_source_dependency_chart c chart (JDict [root_entry d]) (Some p) False
         = Inr (c + dep_nodes d, chart1)"
    and p1: "paths chart1 = paths chart @ parent_edge c d (Some p) False @ map render_edge (dep_edges c d)"
    by auto
  from Cons.IH[of "c + dep_nodes d" chart1] Cons.prems
  obtain chart2 where 2: "union_items (c + dep_nodes d) chart1 (map root_entry ds) p
         = Inr (c + dep_nodes d + sum_list (map dep_nodes ds), chart2)"
    and p2: "paths chart2 = paths chart1 @ map render_edge (member_edges pc (c + dep_nodes d) ds)"
    by auto
  have pe: "parent_edge c d (Some p) False = [render_edge (c, dashed UnionMember d, pc)]"
    by (simp add: parent_edge_def render_edge_def dashed_def Cons.prems(2))
  show ?case
    using 1 2 p1 p2 pe kn by (simp add: build_source_dependency_chart.simps add.assoc)
qed

lemma build_dep:
  "wf_dep d \<Longrightarrow>
   \<exists>chart'. build_source_dependency_chart c chart (JDict [root_entry d]) parent map_right
       = Inr (c + dep_nodes d, chart')
     \<and> paths chart' = paths chart @ parent_edge c d parent map_right @ map render_edge (dep_edges c d)"
proof (induction d arbitrary: c chart parent map_right)
  case (Leaf k kind)
  then show ?case
    by (auto simp: build_source_dependency_chart.simps dict_keys_def dict_get_def leaf_node_map_def
        Node_def add_node_def add_path_def parent_edge_def split: option.splits)
next
  case (Mapping k l r)
  define sn where "sn = \<lparr>label = k, node_id = str_nat c, shape = ''{{}}'', style = None\<rparr>"
  define chart2 where "chart2 = (case parent of None \<Rightarrow> add_node chart sn
      | Some q \<Rightarrow> add_path (add_node chart sn) sn q [] ''-->'')"
  have p2: "paths chart2 = paths chart @ parent_edge c (Mapping k l r) parent map_right"
    by (simp add: chart2_def add_node_def add_path_def parent_edge_def sn_def split: option.splits)
  from Mapping.prems have wl: "wf_dep l" and wr: "wf_dep r" by simp_all
  from Mapping.IH(1)[OF wl, of "Suc c" chart2 "Some sn" False]
  obtain chart3 where 3: "build_source_dependency_chart (Suc c) chart2 (JDict [root_entry l]) (Some sn) False
       = Inr (Suc c + dep_nodes l, chart3)"
    and p3: "paths chart3 = paths chart2 @ parent_edge (Suc c) l (Some sn) False @ map render_edge (dep_edges (Suc c) l)"
    by auto
  from Mapping.IH(2)[OF wr, of "Suc c + dep_nodes l" chart3 "Some sn" True]
  obtain chart4 where 4: "build_source_dependency_chart (Suc c + dep_nodes l) chart3 (JDict [root_entry r]) (Some sn) True
       = Inr (Suc c + dep_nodes l + dep_nodes r, chart4)"
    and p4: "paths chart4 = paths chart3 @ parent_edge (Suc c + dep_nodes l) r (Some sn) True
        @ map render_edge (dep_edges (Suc c + dep_nodes l) r)"
    by auto
  have el: "parent_edge (Suc c) l (Some sn) False = [render_edge (Suc c, dashed MappingLeft l, c)]"
    by (simp add: parent_edge_def render_edge_def dashed_def sn_def)
  have er: "parent_edge (Suc c + dep_nodes l) r (Some sn) True
      = [render_edge (Suc c + dep_nodes l, dashed MappingRight r, c)]"
    by (simp add: parent_edge_def render_edge_def dashed_def sn_def)
  have "build_source_dependency_chart c chart (JDict [root_entry (Mapping k l r)]) parent map_right
      = Inr (c + dep_nodes (Mapping k l r), chart4)"
    apply (subst build_source_dependency_chart.simps)
    using 3 4 by (simp add: dict_keys_def dict_get_def Node_def sn_def[symmetric] chart2_def[symmetric])
  moreover have "paths chart4 = paths chart @ parent_edge c (Mapping k l r) parent map_right
      @ map render_edge (dep_edges c (Mapping k l r))"
    using p2 p3 p4 el er by simp
  ultimately show ?case by blast
next
  case (Union k ds)
  define sn where "sn = \<lparr>label = k, node_id = str_nat c, shape = ''{{}}'', style = None\<rparr>"
  define chart2 where "chart2 = (case parent of None \<Rightarrow> add_node chart sn
      | Some q \<Rightarrow> add_path (add_node chart sn) sn q [] ''-->'')"
  have p2: "paths chart2 = paths chart @ parent_edge c (Union k ds) parent map_right"
    by (simp add: chart2_def add_node_def add_path_def parent_edge_def sn_def split: option.splits)
  have ih: "\<And>d c chart parent map_right. d \<in> set ds \<Longrightarrow>
     \<exists>chart'. build_source_dependency_chart c chart (JDict [root_entry d]) parent map_right
         = Inr (c + dep_nodes d, chart')
       \<and> paths chart' = paths chart @ parent_edge c d parent map_right @ map render_edge (dep_edges c d)"
    using Union.IH Union.prems by (simp add: list_all_iff)
  have "node_id sn = str_nat c" by (simp add: sn_def)
  from build_members[OF ih this, of ds "Suc c" chart2]
  obtain chart3 where 3: "union_items (Suc c) chart2 (map root_entry ds) sn
         = Inr (Suc c + sum_list (map dep_nodes ds), chart3)"
    and p3: "paths chart3 = paths chart2 @ map render_edge (member_edges c (Suc c) ds)"
    by auto
  have "build_source_dependency_chart c chart (JDict [root_entry (Union k ds)]) parent map_right
      = Inr (c + dep_nodes (Union k ds), chart3)"
    apply (subst build_source_dependency_chart.simps)
    using 3 by (simp add: dict_keys_def dict_get_def Node_def sn_def[symmetric] chart2_def[symmetric])
  moreover have "paths chart3 = paths chart @ parent_edge c (Union k ds) parent map_right
      @ map render_edge (dep_edges c (Union k ds))"
    using p2 p3 by simp
  ultimately show ?case by blast
next
  case (Multi k d)
  define sn where "sn = \<lparr>label = k, node_id = str_nat c, shape = ''{{}}'', style = None\<rparr>"
  define chart2 where "chart2 = (case parent of None \<Rightarrow> add_node chart sn
      | Some q \<Rightarrow> add_path (add_node chart sn) sn q [] ''-->'')"
  have p2: "paths chart2 = paths chart @ parent_edge c (Multi k d) parent map_right"
    by (simp add: chart2_def add_node_def add_path_def parent_edge_def sn_def split: option.splits)
  from Multi.prems have wd: "wf_dep d" by simp
  from Multi.IH[OF wd, of "Suc c" chart2 "Some sn" False]
  obtain chart3 where 3: "build_source_dependency_chart (Suc c) chart2 (JDict [root_entry d]) (Some sn) False
       = Inr (Suc c + dep_nodes d, chart3)"
    and p3: "paths chart3 = paths chart2 @ parent_edge (Suc c) d (Some sn) False @ map render_edge (dep_edges (Suc c) d)"
    by auto
  have e: "parent_edge (Suc c) d (Some sn) False = [render_edge (Suc c, dashed MultiOriginal d, c)]"
    by (simp add: parent_edge_def render_edge_def dashed_def sn_def)
  have "build_source_dependency_chart c chart (JDict [root_entry (Multi k d)]) parent map_right
      = Inr (c + dep_nodes (Multi k d), chart3)"
    apply (subst build_source_dependency_chart.simps)
    using 3 by (simp add: dict_keys_def dict_get_def Node_def sn_def[symmetric] chart2_def[symmetric])
  moreover have "paths chart3 = paths chart @ parent_edge c (Multi k d) parent map_right
      @ map render_edge (dep_edges c (Multi k d))"
    using p2 p3 e by simp
  ultimately show ?case by blast
qed

lemma tree_entries_single: "tree_entries (JDict [(k, nest)]) = Suc (nest_entries nest)"
  by (simp add: tree_entries.simps)

lemma nest_entries_leaf: "nest_entries (JStr kind) = 0"
  by (simp add: nest_entries.simps)

lemma nest_entries_mapping:
  "nest_entries (JDict [(''mapping'', JDict [(''left'', lt), (''right'', rt)])])
     = tree_entries lt + tree_entries rt"
  by (simp add: nest_entries.simps dict_keys_def dict_get_def)

lemma nest_entries_union:
  "nest_entries (JDict [(''union'', u)]) = tree_entries u"
  by (simp add: nest_entries.simps dict_keys_def dict_get_def)

lemma nest_entries_multi:
  "nest_entries (JDict [(''multi'', t)]) = tree_entries t"
  by (simp add: nest_entries.simps dict_keys_def dict_get_def)

lemma tree_entries_zip:
  "length ks = length nests \<Longrightarrow>
   tree_entries (JDict (zip ks nests)) = sum_list (map (\<lambda>nest. Suc (nest_entries nest)) nests)"
proof -
  assume len: "length ks = length nests"
  have "map (\<lambda>kv. Suc (nest_entries (snd kv))) (zip ks nests)
      = map (\<lambda>nest. Suc (nest_entries nest)) (map snd (zip ks nests))"
    by simp
  also have "\<dots> = map (\<lambda>nest. Suc (nest_entries nest)) nests"
    using len by simp
  finally show ?thesis by (simp add: tree_entries.simps)
qed

lemma dict_set_fresh: "k \<notin> set (map fst acc) \<Longrightarrow> dict_set acc k v = acc @ [(k, v)]"
  by (induction acc) auto

lemma union_loop_fresh:
  "list_all2 (\<lambda>k nest. f k = Inr (JDict [(k, nest)])) ks nests \<Longrightarrow> distinct ks \<Longrightarrow>
   set ks \<inter> set (map fst acc) = {} \<Longrightarrow>
   union_loop f ks acc = Inr (acc @ zip ks nests)"
proof (induction ks nests arbitrary: acc rule: list_all2_induct)
  case Nil
  then show ?case by simp
next
  case (Cons k ks nest nests)
  have fresh: "k \<notin> set (map fst acc)" using Cons.prems by auto
  have upd: "dict_update acc [(k, nest)] = acc @ [(k, nest)]"
    using fresh by (simp add: dict_update_def dict_set_fresh)
  have "set ks \<inter> set (map fst (acc @ [(k, nest)])) = {}"
    using Cons.prems by auto
  with Cons.IH[of "acc @ [(k, nest)]"] Cons.prems
  have "union_loop f ks (acc @ [(k, nest)]) = Inr ((acc @ [(k, nest)]) @ zip ks nests)"
    by simp
  then show ?case using Cons.hyps(1) upd by simp
qed

lemma members_resolve:
  "list_all2 (\<lambda>k n. \<exists>depth0 nest. Suc (nest_entries nest) = n
       \<and> (\<forall>depth. (f :: nat \<Rightarrow> string \<Rightarrow> error + json) (depth0 + depth) k
             = Inr (JDict [(k, nest)]))) ks ns \<Longrightarrow>
   \<exists>depth0 nests. map (\<lambda>nest. Suc (nest_entries nest)) nests = ns
       \<and> (\<forall>depth. list_all2 (\<lambda>k nest. f (depth0 + depth) k = Inr (JDict [(k, nest)])) ks nests)"
proof (induction ks ns rule: list_all2_induct)
  case Nil
  then show ?case by simp
next
  case (Cons k ks n ns)
  from Cons.hyps(1) obtain d1 nest where n: "Suc (nest_entries nest) = n"
    and r1: "\<And>depth. f (d1 + depth) k = Inr (JDict [(k, nest)])" by blast
  from Cons.IH obtain d2 nests where ns: "map (\<lambda>nest. Suc (nest_entries nest)) nests = ns"
    and r2: "\<And>depth. list_all2 (\<lambda>k nest. f (d2 + depth) k = Inr (JDict [(k, nest)])) ks nests"
    by blast
  have "f (d1 + d2 + depth) k = Inr (JDict [(k, nest)])" for depth
    using r1[of "d2 + depth"] by (simp add: add.assoc)
  moreover have "list_all2 (\<lambda>k nest. f (d1 + d2 + depth) k = Inr (JDict [(k, nest)])) ks nests" for depth
    using r2[of "d1 + depth"] by (simp add: add.assoc add.left_commute)
  ultimately have A: "\<forall>depth. list_all2 (\<lambda>k nest. f (d1 + d2 + depth) k = Inr (JDict [(k, nest)]))
      (k # ks) (nest # nests)"
    by simp
  have B: "map (\<lambda>nest. Suc (nest_entries nest)) (nest # nests) = n # ns"
    using n ns by simp
  show ?case
    by (rule exI[of _ "d1 + d2"], rule exI[of _ "nest # nests"]) (use A B in blast)
qed

lemma resolves_root:
  "resolves sources_config k n \<Longrightarrow>
   \<exists>depth0 nest. Suc (nest_entries nest) = n
     \<and> (\<forall>depth. get_source_dependency_tree (depth0 + depth) sources_config (JStr k)
           = Inr (JDict [(k, nest)]))"
proof (induction rule: resolves.induct)
  case (leaf k d)
  have "\<exists>kind. \<forall>depth. get_source_dependency_tree (Suc 0 + depth) sources_config (JStr k)
      = Inr (JDict [(k, JStr kind)])"
    using leaf
    by (auto simp: get_source_dependency_tree.simps dict_get_def leaf_definition_def
        complex_sources_def split: option.splits json.splits)
  then show ?case using nest_entries_leaf by (metis One_nat_def)
next
  case (mapping k d l r a b)
  from mapping.IH(1) obtain d1 nl where a: "Suc (nest_entries nl) = a"
    and r1: "\<And>depth. get_source_dependency_tree (d1 + depth) sources_config (JStr l)
        = Inr (JDict [(l, nl)])" by blast
  from mapping.IH(2) obtain d2 nr where b: "Suc (nest_entries nr) = b"
    and r2: "\<And>depth. get_source_dependency_tree (d2 + depth) sources_config (JStr r)
        = Inr (JDict [(r, nr)])" by blast
  define nest where "nest = JDict [(''mapping'', JDict [(''left'', JDict [(l, nl)]), (''right'', JDict [(r, nr)])])]"
  have "get_source_dependency_tree (Suc (d1 + d2) + depth) sources_config (JStr k)
      = Inr (JDict [(k, nest)])" for depth
    using mapping.hyps(1-4) r1[of "d2 + depth"] r2[of "d1 + depth"]
    by (simp add: get_source_dependency_tree.simps dict_get_def complex_sources_def nest_def
        add.assoc add.left_commute)
  moreover have "Suc (nest_entries nest) = 1 + a + b"
    using a b by (simp add: nest_def nest_entries_mapping tree_entries_single)
  ultimately show ?case by blast
next
  case (union k d srcs ns)
  have "list_all2 (\<lambda>k n. \<exists>depth0 nest. Suc (nest_entries nest) = n
       \<and> (\<forall>depth. (\<lambda>depth k. get_source_dependency_tree depth sources_config (JStr k))
               (depth0 + depth) k = Inr (JDict [(k, nest)]))) (dict_keys srcs) ns"
    using union.IH by (rule list_all2_mono) simp
  from members_resolve[OF this]
  obtain d0 nests where ns: "map (\<lambda>nest. Suc (nest_entries nest)) nests = ns"
    and rs: "\<And>depth. list_all2 (\<lambda>k nest. get_source_dependency_tree (d0 + depth) sources_config (JStr k)
        = Inr (JDict [(k, nest)])) (dict_keys srcs) nests"
    by blast
  have len: "length (dict_keys srcs) = length nests"
    using rs[of 0] by (rule list_all2_lengthD)
  define nest where "nest = JDict [(''union'', JDict (zip (dict_keys srcs) nests))]"
  have loop: "union_loop (\<lambda>union_source. get_source_dependency_tree (d0 + depth) sources_config (JStr union_source))
      (dict_keys srcs) [] = Inr (zip (dict_keys srcs) nests)" for depth
    using union_loop_fresh[OF rs[of depth] union.hyps(4), of "[]"] by simp
  have "get_source_dependency_tree (Suc d0 + depth) sources_config (JStr k)
      = Inr (JDict [(k, nest)])" for depth
    using union.hyps(1-3) loop[of depth]
    by (simp add: get_source_dependency_tree.simps dict_get_def complex_sources_def nest_def)
  moreover have "Suc (nest_entries nest) = 1 + sum_list ns"
    using ns len by (simp add: nest_def nest_entries_union tree_entries_zip)
  ultimately show ?case by blast
next
  case (multi k d original a)
  from multi.IH obtain d1 no where a: "Suc (nest_entries no) = a"
    and r1: "\<And>depth. get_source_dependency_tree (d1 + depth) sources_config (JStr original)
        = Inr (JDict [(original, no)])" by blast
  define nest where "nest = JDict [(''multi'', JDict [(original, no)])]"
  have "get_source_dependency_tree (Suc d1 + depth) sources_config (JStr k)
      = Inr (JDict [(k, nest)])" for depth
    using multi.hyps(1-3) r1[of depth]
    by (simp add: get_source_dependency_tree.simps dict_get_def complex_sources_def nest_def)
  moreover have "Suc (nest_entries nest) = 1 + a"
    using a by (simp add: nest_def nest_entries_multi tree_entries_single)
  ultimately show ?case by blast
qed


text \<open>
  Claim C1. For the configuration with the mapping \<open>m\<close> of the file source \<open>l\<close> and the
  SQL source \<open>r\<close>, the resolver returns the tree
  \<open>{"m": {"mapping": {"left": {"l": "file"}, "right": {"r": "sql"}}}}\<close> at every call
  depth of at least two, and the builder, on a fresh flowchart and from any value of the
  node counter, produces three nodes and two edges: the edge from \<open>l\<close> to \<open>m\<close> is solid and
  the edge from \<open>r\<close> to \<open>m\<close> is dashed.
\<close>

theorem scenario_mapping_graph:
  "get_source_dependency_tree (Suc (Suc depth)) scenario_config (JStr ''m'') = Inr scenario_tree
   \<and> build_source_dependency_chart c (Flowchart ''TD'' ''default'') scenario_tree None False
     = Inr (c + 3, \<lparr>orientation = ''TD'', theme = ''default'',
        nodes = [\<lparr>label = ''m'', node_id = str_nat c, shape = ''{{}}'', style = None\<rparr>,
                 \<lparr>label = ''l'', node_id = str_nat (c + 1), shape = ''[]'', style = None\<rparr>,
                 \<lparr>label = ''r'', node_id = str_nat (c + 2), shape = ''[()]'', style = None\<rparr>],
        paths = [''\<newline>'' @ str_nat (c + 1) @ '' -->'' @ str_nat c,
                 ''\<newline>'' @ str_nat (c + 2) @ '' -.->'' @ str_nat c],
        hrefs = [], clicks = []\<rparr>)"
proof
  show "get_source_dependency_tree (Suc (Suc depth)) scenario_config (JStr ''m'') = Inr scenario_tree"
    by (simp add: get_source_dependency_tree.simps dict_get_def scenario_config_def
        scenario_tree_def complex_sources_def dict_keys_def)
next
  show "build_source_dependency_chart c (Flowchart ''TD'' ''default'') scenario_tree None False
     = Inr (c + 3, \<lparr>orientation = ''TD'', theme = ''default'',
        nodes = [\<lparr>label = ''m'', node_id = str_nat c, shape = ''{{}}'', style = None\<rparr>,
                 \<lparr>label = ''l'', node_id = str_nat (c + 1), shape = ''[]'', style = None\<rparr>,
                 \<lparr>label = ''r'', node_id = str_nat (c + 2), shape = ''[()]'', style = None\<rparr>],
        paths = [''\<newline>'' @ str_nat (c + 1) @ '' -->'' @ str_nat c,
                 ''\<newline>'' @ str_nat (c + 2) @ '' -.->'' @ str_nat c],
        hrefs = [], clicks = []\<rparr>)"
    by (simp add: build_source_dependency_chart.simps dict_get_def scenario_tree_def
        dict_keys_def leaf_node_map_def Node_def add_node_def add_path_def Flowchart_def)
qed

text \<open>
  Claim C2. When the target key resolves, visiting \<open>n\<close> keys (every referenced key
  reaches leaves, without cycles), the resolver returns at every sufficient call depth:
  there is a depth from which every call returns one and the same tree, and the number
  of source-key entries of that tree is \<open>n\<close>.
\<close>

theorem resolves_terminates_counts:
  assumes "resolves sources_config source_key n"
  shows "\<exists>depth0 tree. tree_entries tree = n
     \<and> (\<forall>depth. get_source_dependency_tree (depth0 + depth) sources_config (JStr source_key)
           = Inr tree)"
proof -
  from resolves_root[OF assms] obtain depth0 nest where n: "Suc (nest_entries nest) = n"
    and r: "\<forall>depth. get_source_dependency_tree (depth0 + depth) sources_config (JStr source_key)
           = Inr (JDict [(source_key, nest)])" by blast
  have "tree_entries (JDict [(source_key, nest)]) = n"
    using n by (simp add: tree_entries_single)
  with r show ?thesis by blast
qed

theorem resolves_terminates_counts_witness:
  "resolves union_config ''u'' 5
   \<and> (\<exists>depth0 tree. tree_entries tree = 5
        \<and> (\<forall>depth. get_source_dependency_tree (depth0 + depth) union_config (JStr ''u'') = Inr tree))
   \<and> get_source_dependency_tree (Suc (Suc (Suc 0))) union_config (JStr ''u'') = Inr union_tree
   \<and> tree_entries union_tree = 5"
proof -
  have ra: "resolves union_config ''a'' 1"
    by (rule resolves.leaf[where d = "[(''type'', JStr ''union_directory'')]"])
       (simp_all add: union_config_def leaf_definition_def dict_get_def)
  have rb: "resolves union_config ''b'' 1"
    by (rule resolves.leaf[where d = "[(''connection'', JDict [(''config'', JDict [])])]"])
       (simp_all add: union_config_def leaf_definition_def dict_get_def)
  have rv: "resolves union_config ''v'' (1 + sum_list [1, 1])"
  proof (rule resolves.union[where d = "[(''type'', JStr ''union''),
           (''sources'', JDict [(''a'', JDict []), (''b'', JDict [])])]"
           and srcs = "[(''a'', JDict []), (''b'', JDict [])]"])
    show "list_all2 (resolves union_config) (dict_keys [(''a'', JDict []), (''b'', JDict [])]) [1, 1]"
      using ra rb by (simp add: dict_keys_def)
  qed (simp_all add: union_config_def dict_get_def dict_keys_def)
  have ru: "resolves union_config ''u'' (1 + sum_list [1, 1 + sum_list [1, 1]])"
  proof (rule resolves.union[where d = "[(''type'', JStr ''union''),
           (''sources'', JDict [(''a'', JDict []), (''v'', JDict [])])]"
           and srcs = "[(''a'', JDict []), (''v'', JDict [])]"])
    show "list_all2 (resolves union_config) (dict_keys [(''a'', JDict []), (''v'', JDict [])])
        [1, 1 + sum_list [1, 1]]"
      using ra rv by (simp add: dict_keys_def)
  qed (simp_all add: union_config_def dict_get_def dict_keys_def)
  have five: "1 + sum_list [1, 1 + sum_list [1, 1]] = (5::nat)" by simp
  have r: "resolves union_config ''u'' 5" using ru unfolding five .
  have t: "get_source_dependency_tree (Suc (Suc (Suc 0))) union_config (JStr ''u'') = Inr union_tree"
    by (simp add: get_source_dependency_tree.simps union_config_def union_tree_def dict_get_def
        dict_keys_def complex_sources_def dict_update_def)
  have c: "tree_entries union_tree = 5"
    by (simp add: union_tree_def tree_entries.simps nest_entries.simps dict_keys_def dict_get_def)
  show ?thesis
    using r resolves_terminates_counts [OF r] t c by simp
qed

text \<open>
  Claim C3. When the key is absent from the configuration, the resolver fails with the
  \<open>KeyError\<close> that names the key, whatever else the configuration holds.
\<close>

theorem absent_key_KeyError:
  "map_of sources_config source_key = None \<Longrightarrow>
   get_source_dependency_tree (Suc depth) sources_config (JStr source_key)
     = Inl (KeyError (not_found_msg source_key))"
  by (simp add: get_source_dependency_tree.simps dict_get_def)

theorem absent_key_KeyError_witness:
  "map_of scenario_config ''missing_key'' = None
   \<and> get_source_dependency_tree (Suc 0) scenario_config (JStr ''missing_key'')
     = Inl (KeyError (not_found_msg ''missing_key''))"
proof -
  have absent: "map_of scenario_config ''missing_key'' = None"
    by (simp add: scenario_config_def)
  show ?thesis
    using absent absent_key_KeyError [OF absent, of 0] by simp
qed

text \<open>
  Claim C4. A definition without a declared kind and without a \<open>connection\<close> field does
  not fail with the generic exception: \<open>source_config.get("connection")\<close> is \<open>None\<close>, and
  the chained \<open>.get("config")\<close> raises \<open>AttributeError\<close>. Only when \<open>connection\<close> is a
  dictionary without \<open>config\<close> is \<open>Exception("Invalid source config.")\<close> raised.
\<close>

theorem missing_connection_AttributeError:
  "get_source_dependency_tree (Suc depth) [(''a'', JDict [])] (JStr ''a'') = Inl AttributeError
   \<and> get_source_dependency_tree (Suc depth) [(''a'', JDict [(''connection'', JDict [])])] (JStr ''a'')
       = Inl (PyException ''Invalid source config.'')"
  by (simp add: get_source_dependency_tree.simps dict_get_def complex_sources_def)

text \<open>
  Claim C5. For a well-formed dependency tree the builder succeeds, creates one node for
  every source key, and appends exactly the edge lines of \<open>dep_edges\<close>, after the edge from
  the root to the parent the caller supplied: an edge is dashed exactly when it leaves a
  leaf that is the right sub-tree of a mapping, and solid when it leaves a composite
  node (whatever the branch flag) or a member of a union or the original of a multi.
\<close>

theorem build_edge_styles:
  assumes "wf_dep d"
  shows "\<exists>chart'. build_source_dependency_chart c chart (tree_of d) parent map_right
       = Inr (c + dep_nodes d, chart')
     \<and> paths chart' = paths chart @ parent_edge c d parent map_right @ map render_edge (dep_edges c d)"
  using build_dep[OF assms] by (simp add: tree_of_def)

theorem build_edge_styles_witness:
  "wf_dep chart_dep
   \<and> (\<exists>chart'. build_source_dependency_chart 100 (Flowchart ''TD'' ''default'') (tree_of chart_dep)
          None False = Inr (106, chart')
        \<and> paths chart' = map render_edge
            [(101, False, 100), (102, False, 101), (103, False, 101), (104, False, 103),
             (105, True, 100)])"
proof -
  have wf: "wf_dep chart_dep" by (simp add: chart_dep_def)
  have n: "dep_nodes chart_dep = 6" by (simp add: chart_dep_def)
  have e: "dep_edges 100 chart_dep =
     [(101, False, 100), (102, False, 101), (103, False, 101), (104, False, 103), (105, True, 100)]"
    by (simp add: chart_dep_def dashed_def)
  show ?thesis
    using wf build_edge_styles [OF wf, of 100 "Flowchart ''TD'' ''default''" None False]
    by (simp add: n e parent_edge_def Flowchart_def)
qed

text \<open>
  Claim C6, as stated, at a chart with one node of label \<open>"a "\<close> and empty shape: the
  markup ends in \<open>100a\<close>, the node line without its trailing space, so it is not the
  concatenation of the pieces as recorded.
\<close>

theorem to_mermaid_strips_spaces:
  "to_mermaid spaced_chart = ''graph TD\<newline>100a''
   \<and> to_mermaid_unstripped spaced_chart = ''graph TD\<newline>100a ''
   \<and> to_mermaid spaced_chart \<noteq> to_mermaid_unstripped spaced_chart"
  by (simp add: to_mermaid_def to_mermaid_unstripped_def spaced_chart_def add_node_def
      Flowchart_def get_node_code_def node_line_def strip_sp_def)

text \<open>
  Claim C6, amended. For every flowchart, \<open>to_mermaid\<close> returns the header
  \<open>graph <orientation>\<close>; then, for each node in insertion order, the node-definition
  line (the label between the two halves of the shape string split at its midpoint) with
  the spaces at its ends stripped, followed at once by a newline and the stripped style
  when the style is set; then the recorded edge lines in insertion order, each stripped;
  then the callback-click directives, each stripped; then the href-click directives, each
  stripped.
\<close>

theorem to_mermaid_layout:
  "to_mermaid self =
     ''graph '' @ orientation self
     @ concat (map (\<lambda>n. strip_sp (''\<newline>'' @ node_line n)
                 @ (case style n of None \<Rightarrow> [] | Some sty \<Rightarrow> ''\<newline>'' @ strip_sp sty)) (nodes self))
     @ concat (map strip_sp (paths self))
     @ concat (map strip_sp (map snd (clicks self)))
     @ concat (map strip_sp (map snd (hrefs self)))"
  by (simp add: to_mermaid_def Let_def foldl_append_concat foldl_nodes_concat
      get_node_code_def node_line_def)

text \<open>
  Claim C7. With no style field given, \<open>set_style\<close> on the node of identity \<open>100\<close> yields
  \<open>style 10\<close>: the unconditional \<open>style[:-1]\<close> removes the last digit of the identity.
  With \<open>stroke_width = 0\<close> the stroke-width fragment is left out, since the test is the
  truth value of the argument.
\<close>

theorem set_style_no_fields_cuts_id:
  "set_style example_node None None None None = example_node\<lparr>style := Some ''style 10''\<rparr>
   \<and> set_style example_node (Some ''#fff'') None (Some 0) None
       = example_node\<lparr>style := Some ''style 100 fill:#fff''\<rparr>"
  by (simp add: set_style_def example_node_def truthy_str_def truthy_int_def truthy_list_def)

text \<open>
  Claim C8. For every entry of the named-shape table, \<open>set_shape\<close> with the name sets the
  shape to the entry's delimiter pair, which is what reading the shape back gives.
  \<open>set_shape_raw\<close> sets the shape to its argument when the argument is one of the table's
  delimiter pairs and raises otherwise; the table has twelve distinct pairs, and the
  default rectangle \<open>[]\<close> is not among them.
\<close>

theorem shape_table_round_trip:
  "(\<forall>name shp. (name, shp) \<in> set shape_map \<longrightarrow>
       set_shape self name = Inr (self\<lparr>shape := shp\<rparr>) \<and> shape (self\<lparr>shape := shp\<rparr>) = shp)
   \<and> (\<forall>s. s \<in> set (map snd shape_map) \<longrightarrow> set_shape_raw self s = Inr (self\<lparr>shape := s\<rparr>))
   \<and> (\<forall>s. s \<notin> set (map snd shape_map) \<longrightarrow> (\<exists>msg. set_shape_raw self s = Inl (PyException msg)))
   \<and> ''[]'' \<notin> set (map snd shape_map)
   \<and> distinct (map snd shape_map) \<and> length (map snd shape_map) = 12"
proof -
  have d: "distinct (map fst shape_map)" by (simp add: shape_map_def)
  have a: "\<forall>name shp. (name, shp) \<in> set shape_map \<longrightarrow>
       set_shape self name = Inr (self\<lparr>shape := shp\<rparr>) \<and> shape (self\<lparr>shape := shp\<rparr>) = shp"
    using d by (auto simp: set_shape_def)
  have b: "\<forall>s. s \<in> set (map snd shape_map) \<longrightarrow> set_shape_raw self s = Inr (self\<lparr>shape := s\<rparr>)"
    by (simp add: set_shape_raw_def)
  have c: "\<forall>s. s \<notin> set (map snd shape_map) \<longrightarrow> (\<exists>msg. set_shape_raw self s = Inl (PyException msg))"
    by (simp add: set_shape_raw_def)
  have e: "''[]'' \<notin> set (map snd shape_map)" by (simp add: shape_map_def)
  have f: "distinct (map snd shape_map) \<and> length (map snd shape_map) = 12"
    by (simp add: shape_map_def)
  show ?thesis using a b c e f by blast
qed

theorem shape_table_round_trip_witness:
  "(''hexagon'', ''{{}}'') \<in> set shape_map
   \<and> set_shape example_node ''hexagon'' = Inr (example_node\<lparr>shape := ''{{}}''\<rparr>)
   \<and> ''[()]'' \<in> set (map snd shape_map)
   \<and> set_shape_raw example_node ''[()]'' = Inr (example_node\<lparr>shape := ''[()]''\<rparr>)
   \<and> ''[]'' \<notin> set (map snd shape_map)
   \<and> (\<exists>msg. set_shape_raw example_node ''[]'' = Inl (PyException msg))"
proof -
  have h1: "(''hexagon'', ''{{}}'') \<in> set shape_map" by (simp add: shape_map_def)
  have h2: "''[()]'' \<in> set (map snd shape_map)" by (simp add: shape_map_def)
  have h3: "''[]'' \<notin> set (map snd shape_map)" by (simp add: shape_map_def)
  show ?thesis
    using h1 h2 h3 shape_table_round_trip [of example_node] by blast
qed

text \<open>
  Claim C9, as stated, at a mapping that omits \<open>right\<close> and whose \<open>left\<close> child has the
  declared kind \<open>bogus\<close>: the left child is resolved first and fails with the exception
  for an invalid source type, so the \<open>KeyError\<close> about the key \<open>None\<close> is never raised.
\<close>

theorem omitted_right_other_error:
  "map_of half_mapping_config ''m''
     = Some (JDict [(''type'', JStr ''mapping''), (''left'', JStr ''b'')])
   \<and> map_of [(''type'', JStr ''mapping''), (''left'', JStr ''b'')] ''right'' = None
   \<and> get_source_dependency_tree (Suc (Suc 0)) half_mapping_config (JStr ''m'')
       = Inl (PyException
           ''Invalid source type. Must be either: sql, file, union_dir, mapping, union or multi.'')
   \<and> get_source_dependency_tree (Suc (Suc 0)) half_mapping_config (JStr ''m'') \<noteq> Inl none_key_error"
  by (simp add: get_source_dependency_tree.simps dict_get_def half_mapping_config_def
      complex_sources_def none_key_error_def)

text \<open>
  Claim C9, amended. For a definition present under the target key, at a call depth of
  at least two: a mapping that omits \<open>left\<close>, a mapping that omits \<open>right\<close> and whose \<open>left\<close>
  child resolves to a tree, and a multi that omits \<open>original\<close> each make the resolver
  recurse with \<open>None\<close> as the child key and fail with the \<open>KeyError\<close> saying that the source
  key \<open>None\<close> was not found, not with the exception for a malformed definition.
\<close>

theorem omitted_child_KeyError_None:
  assumes "map_of sources_config source_key = Some (JDict d)"
  shows "(dict_get d ''type'' = JStr ''mapping'' \<and> map_of d ''left'' = None \<longrightarrow>
            get_source_dependency_tree (Suc (Suc depth)) sources_config (JStr source_key)
              = Inl none_key_error)
       \<and> (dict_get d ''type'' = JStr ''mapping'' \<and> map_of d ''right'' = None
            \<and> get_source_dependency_tree (Suc depth) sources_config (dict_get d ''left'')
                = Inr left_tree \<longrightarrow>
            get_source_dependency_tree (Suc (Suc depth)) sources_config (JStr source_key)
              = Inl none_key_error)
       \<and> (dict_get d ''type'' = JStr ''multi'' \<and> map_of d ''original'' = None \<longrightarrow>
            get_source_dependency_tree (Suc (Suc depth)) sources_config (JStr source_key)
              = Inl none_key_error)"
  using assms
  by (simp add: get_source_dependency_tree.simps dict_get_def complex_sources_def
      none_key_error_def)

theorem omitted_child_KeyError_None_witness:
  "get_source_dependency_tree (Suc (Suc 0)) no_left_config (JStr ''m'') = Inl none_key_error
   \<and> get_source_dependency_tree (Suc 0) no_right_config (JStr ''l'')
       = Inr (JDict [(''l'', JStr ''union_directory'')])
   \<and> get_source_dependency_tree (Suc (Suc 0)) no_right_config (JStr ''m'') = Inl none_key_error
   \<and> get_source_dependency_tree (Suc (Suc 0)) no_original_config (JStr ''m'') = Inl none_key_error"
proof -
  have l: "map_of no_left_config ''m''
      = Some (JDict [(''type'', JStr ''mapping''), (''right'', JStr ''r'')])"
    by (simp add: no_left_config_def)
  have r: "map_of no_right_config ''m''
      = Some (JDict [(''type'', JStr ''mapping''), (''left'', JStr ''l'')])"
    by (simp add: no_right_config_def)
  have rl: "get_source_dependency_tree (Suc 0) no_right_config (JStr ''l'')
       = Inr (JDict [(''l'', JStr ''union_directory'')])"
    by (simp add: get_source_dependency_tree.simps no_right_config_def dict_get_def
        complex_sources_def)
  have o: "map_of no_original_config ''m'' = Some (JDict [(''type'', JStr ''multi'')])"
    by (simp add: no_original_config_def)
  show ?thesis
    using omitted_child_KeyError_None [OF l, of 0]
      omitted_child_KeyError_None [OF r, of 0 "JDict [(''l'', JStr ''union_directory'')]"]
      omitted_child_KeyError_None [OF o, of 0] rl
    by (simp add: dict_get_def)
qed

text \<open>
  Claim C10. On an empty dependency tree the builder fails with \<open>StopIteration\<close>, raised
  by the extraction of the root key, for every chart, parent and branch flag.
\<close>

theorem empty_tree_StopIteration:
  "build_source_dependency_chart id_iter chart (JDict []) parent_source map_right
     = Inl StopIteration"
  by (simp add: build_source_dependency_chart.simps dict_keys_def)

end
